theory Spec2Isabelle
  imports Main "HOL-Library.Word"
begin

section \<open>The thrift connection pool of pool.go\<close>

text \<open>
  A shallow embedding of \<^verbatim>\<open>pool.go\<close>. Go's \<^verbatim>\<open>int32\<close> and \<^verbatim>\<open>int64\<close> are words
  whose arithmetic wraps; Go's comparisons on them are the signed ones. Every operation
  of the pool is run to completion on an explicit state: what two goroutines do to the
  counters and the channel between each other's steps is outside this model. Of the
  reclaiming goroutine \<^verbatim>\<open>releaseIdleConn\<close> the model has the two calls it makes,
  \<^verbatim>\<open>get(true)\<close> and \<^verbatim>\<open>put(conn, true)\<close>, not its loop and its sleep.
\<close>

type_synonym int32 = "32 word"
type_synonym int64 = "64 word"

text \<open>
  A \<^verbatim>\<open>*thrift.TSocket\<close> is an opaque handle, a \<^verbatim>\<open>*ThriftConn\<close> a non-nil
  reference into the store of connections.
\<close>

type_synonym sock = nat
type_synonym ref = nat

text \<open>
  The two errors the pool builds itself carry the arguments of their
  \<^verbatim>\<open>fmt.Sprintf\<close>: \<^verbatim>\<open>"thriftpool empty, used:%d/%d, init:%d, max:%s"\<close> with
  curUsed, newUsed, InitSize, MaxSize, and \<^verbatim>\<open>"use:%d, init:%d, idle:%d"\<close> with
  used, InitSize, GetIdle(). An error of the thrift library is passed on as it is.
\<close>

datatype error =
    ThriftError string
  | PoolEmpty int32 int32 int32 int32
  | PutFailed int32 int32 int32

text \<open>What the program asks of the thrift library, in the order it asks.\<close>

datatype event =
    CallNewTSocketTimeout string int64
  | CallNewTSocket string
  | CallOpen sock
  | CallClose sock

text \<open>
  The thrift library is a parameter: its answers may depend on its arguments and on
  everything it has been asked so far.
\<close>

record thrift =
  NewTSocketTimeout :: "event list \<Rightarrow> string \<Rightarrow> int64 \<Rightarrow> error + sock"
  NewTSocket :: "event list \<Rightarrow> string \<Rightarrow> error + sock"
  TSocket_Open :: "event list \<Rightarrow> sock \<Rightarrow> error option"
  TSocket_Close :: "event list \<Rightarrow> sock \<Rightarrow> error option"

text \<open>
  \<^verbatim>\<open>usedTime\<close> is a \<^verbatim>\<open>time.Time\<close> of which the program only ever reads
  \<^verbatim>\<open>Unix()\<close>: the field holds that number of seconds.
\<close>

record ThriftConn =
  conn_Endpoint :: string
  conn_closed :: bool
  client :: sock
  usedTime :: int64

text \<open>
  A buffered channel of \<^verbatim>\<open>*ThriftConn\<close>: the values waiting (oldest first), the
  capacity given to \<^verbatim>\<open>make\<close>, and whether \<^verbatim>\<open>close\<close> has been called on it.
\<close>

record chan =
  buf :: "ref list"
  cap :: nat
  chan_closed :: bool

record ThriftPool =
  Endpoint :: string
  DialTimeout :: int32
  IdleTimeout :: int32
  MaxSize :: int32
  InitSize :: int32
  used :: int32
  idle :: int32
  assessTime :: int64
  closed :: int32
  clients :: chan

text \<open>
  The state: the pool \<^verbatim>\<open>t\<close>, the store of the connections allocated so far
  (\<^verbatim>\<open>new(ThriftConn)\<close> takes the next reference), and the calls made to the library.
\<close>

record world =
  pool :: ThriftPool
  conns :: "ref \<Rightarrow> ThriftConn"
  nextConn :: ref
  trace :: "event list"

text \<open>A call either returns or panics.\<close>

datatype 'a outcome = Return 'a | Panic

subsection \<open>Channels\<close>

text \<open>\<^verbatim>\<open>make(chan *ThriftConn, n)\<close> panics on a negative size.\<close>

definition make_chan :: "int32 \<Rightarrow> chan option" where
  "make_chan n =
     (if n <s 0 then None
      else Some \<lparr>buf = [], cap = nat (sint n), chan_closed = False\<rparr>)"

text \<open>
  \<^verbatim>\<open>select { case conn := <-c: ... default: ... }\<close>: a waiting value is received,
  also from a closed channel; a closed channel with nothing waiting yields nil at once;
  otherwise the default branch runs (\<open>None\<close>).
\<close>

definition select_recv :: "chan \<Rightarrow> (ref option \<times> chan) option" where
  "select_recv c =
     (case buf c of
        x # xs \<Rightarrow> Some (Some x, c\<lparr>buf := xs\<rparr>)
      | [] \<Rightarrow> if chan_closed c then Some (None, c) else None)"

text \<open>
  \<^verbatim>\<open>select { case c <- conn: ... default: ... }\<close>: sending on a closed channel
  panics; with room in the buffer the value is queued; otherwise the default branch runs
  (\<open>Return None\<close>).
\<close>

definition select_send :: "chan \<Rightarrow> ref \<Rightarrow> chan option outcome" where
  "select_send c x =
     (if chan_closed c then Panic
      else if length (buf c) < cap c then Return (Some (c\<lparr>buf := buf c @ [x]\<rparr>))
      else Return None)"

subsection \<open>NewThriftPool\<close>

text \<open>
  The reclaiming goroutine that \<^verbatim>\<open>NewThriftPool\<close> starts is not part of the value
  returned. \<open>None\<close> would be a panic of \<^verbatim>\<open>make\<close>. The zero value of
  \<^verbatim>\<open>assessTime\<close> is 0.
\<close>

definition NewThriftPool ::
  "string \<Rightarrow> int32 \<Rightarrow> int32 \<Rightarrow> int32 \<Rightarrow> int32 \<Rightarrow> ThriftPool option" where
  "NewThriftPool endpoint dialTimeout idleTimeout maxSize initSize =
     (let dt = (if dialTimeout <s 1 then 5 else dialTimeout);
          it = (if idleTimeout <s 1 then 10 else idleTimeout);
          ms = (if maxSize <s 1 then 100
                else if maxSize \<le>s initSize * 2 then initSize * 2
                else maxSize);
          is = (if initSize <s 1 then 1 else initSize)
      in case make_chan ms of
           None \<Rightarrow> None
         | Some c \<Rightarrow>
             Some \<lparr>Endpoint = endpoint, DialTimeout = dt, IdleTimeout = it, MaxSize = ms,
                   InitSize = is, used = 0, idle = 0, assessTime = 0, closed = 0,
                   clients = c\<rparr>)"

definition SetIdleTimeout :: "ThriftPool \<Rightarrow> int32 \<Rightarrow> ThriftPool" where
  "SetIdleTimeout t timeout =
     (if timeout <s 1 then t\<lparr>IdleTimeout := 1\<rparr> else t\<lparr>IdleTimeout := timeout\<rparr>)"

definition SetDialTimeout :: "ThriftPool \<Rightarrow> int32 \<Rightarrow> ThriftPool" where
  "SetDialTimeout t timeout =
     (if timeout <s 1 then t\<lparr>DialTimeout := 1\<rparr> else t\<lparr>DialTimeout := timeout\<rparr>)"

subsection \<open>ThriftConn\<close>

definition IsClose :: "world \<Rightarrow> ref \<Rightarrow> bool" where
  "IsClose w conn = conn_closed (conns w conn)"

definition GetUsedTime :: "world \<Rightarrow> ref \<Rightarrow> int64" where
  "GetUsedTime w conn = usedTime (conns w conn)"

text \<open>\<open>now\<close> is what \<^verbatim>\<open>time.Now()\<close> reads at this call, in Unix seconds.\<close>

definition UpdateUsedTime :: "world \<Rightarrow> ref \<Rightarrow> int64 \<Rightarrow> int64 \<times> world" where
  "UpdateUsedTime w conn now =
     (let w1 = w\<lparr>conns := (conns w)(conn := (conns w conn)\<lparr>usedTime := now\<rparr>)\<rparr>
      in (usedTime (conns w1 conn), w1))"

text \<open>
  \<^verbatim>\<open>Unix()\<close> of a reading of the wall clock given in nanoseconds since the epoch:
  the whole seconds, the fraction of a second dropped.
\<close>

definition Unix :: "int \<Rightarrow> int64" where
  "Unix ns = word_of_int (ns div 1000000000)"

text \<open>
  \<^verbatim>\<open>ThriftConn.Close\<close>: nil at once when the flag is set; otherwise the flag is set
  and the handle's own \<^verbatim>\<open>Close\<close> is called, whose error is the result.
\<close>

definition ThriftConn_Close :: "thrift \<Rightarrow> world \<Rightarrow> ref \<Rightarrow> error option \<times> world" where
  "ThriftConn_Close lib w conn =
     (if conn_closed (conns w conn) then (None, w)
      else
        let w1 = w\<lparr>conns := (conns w)(conn := (conns w conn)\<lparr>conn_closed := True\<rparr>)\<rparr>;
            s = client (conns w1 conn)
        in (TSocket_Close lib (trace w1) s, w1\<lparr>trace := trace w1 @ [CallClose s]\<rparr>))"

subsection \<open>The counters\<close>

definition addUsed :: "world \<Rightarrow> int32 \<times> world" where
  "addUsed w = (let v = used (pool w) + 1 in (v, w\<lparr>pool := (pool w)\<lparr>used := v\<rparr>\<rparr>))"

definition subUsed :: "world \<Rightarrow> int32 \<times> world" where
  "subUsed w = (let v = used (pool w) + (- 1) in (v, w\<lparr>pool := (pool w)\<lparr>used := v\<rparr>\<rparr>))"

definition addIdle :: "world \<Rightarrow> int32 \<times> world" where
  "addIdle w = (let v = idle (pool w) + 1 in (v, w\<lparr>pool := (pool w)\<lparr>idle := v\<rparr>\<rparr>))"

definition subIdle :: "world \<Rightarrow> int32 \<times> world" where
  "subIdle w = (let v = idle (pool w) + (- 1) in (v, w\<lparr>pool := (pool w)\<lparr>idle := v\<rparr>\<rparr>))"

definition GetIdle :: "world \<Rightarrow> int32" where
  "GetIdle w = idle (pool w)"

definition GetUsed :: "world \<Rightarrow> int32" where
  "GetUsed w = used (pool w)"

definition GetInitSize :: "world \<Rightarrow> int32" where
  "GetInitSize w = InitSize (pool w)"

definition GetMaxSize :: "world \<Rightarrow> int32" where
  "GetMaxSize w = MaxSize (pool w)"

definition GetAssessTime :: "world \<Rightarrow> int64" where
  "GetAssessTime w = assessTime (pool w)"

subsection \<open>get\<close>

text \<open>
  The dial of \<^verbatim>\<open>get\<close>: \<^verbatim>\<open>NewTSocketTimeout\<close> with
  \<^verbatim>\<open>time.Duration(t.DialTimeout) * time.Second\<close> when the timeout is positive,
  \<^verbatim>\<open>NewTSocket\<close> otherwise.
\<close>

definition dial :: "thrift \<Rightarrow> world \<Rightarrow> (error + sock) \<times> world" where
  "dial lib w =
     (if 0 <s DialTimeout (pool w) then
        let d = scast (DialTimeout (pool w)) * (1000000000 :: int64)
        in (NewTSocketTimeout lib (trace w) (Endpoint (pool w)) d,
            w\<lparr>trace := trace w @ [CallNewTSocketTimeout (Endpoint (pool w)) d]\<rparr>)
      else
        (NewTSocket lib (trace w) (Endpoint (pool w)),
         w\<lparr>trace := trace w @ [CallNewTSocket (Endpoint (pool w))]\<rparr>))"

definition open_client :: "thrift \<Rightarrow> world \<Rightarrow> sock \<Rightarrow> error option \<times> world" where
  "open_client lib w s = (TSocket_Open lib (trace w) s, w\<lparr>trace := trace w @ [CallOpen s]\<rparr>)"

text \<open>
  \<^verbatim>\<open>get(doNotNew)\<close> returns the pair (conn, err) of the source, \<open>None\<close> for nil.
  \<open>accessTime\<close> is the clock read on entry, \<open>connTime\<close> the clock read when a
  new connection is built.
\<close>

definition get ::
  "thrift \<Rightarrow> world \<Rightarrow> bool \<Rightarrow> int64 \<Rightarrow> int64 \<Rightarrow> (ref option \<times> error option) \<times> world" where
  "get lib w0 doNotNew accessTime connTime =
     (let w1 = w0\<lparr>pool := (pool w0)\<lparr>assessTime := accessTime\<rparr>\<rparr>;
          (curUsed, w2) = addUsed w1
      in case select_recv (clients (pool w2)) of
           Some (conn, c) \<Rightarrow>
             let (_, w3) = subIdle (w2\<lparr>pool := (pool w2)\<lparr>clients := c\<rparr>\<rparr>)
             in ((conn, None), w3)
         | None \<Rightarrow>
             if doNotNew then ((None, None), w2)
             else if MaxSize (pool w2) <s curUsed then
               let (newUsed, w3) = subUsed w2
               in ((None, Some (PoolEmpty curUsed newUsed (InitSize (pool w3)) (MaxSize (pool w3)))),
                   w3)
             else
               (case dial lib w2 of
                  (Inl err, w3) \<Rightarrow> ((None, Some err), w3)
                | (Inr s, w3) \<Rightarrow>
                    (case open_client lib w3 s of
                       (Some err, w4) \<Rightarrow> ((None, Some err), w4)
                     | (None, w4) \<Rightarrow>
                         let conn = nextConn w4;
                             c = \<lparr>conn_Endpoint = Endpoint (pool w4), conn_closed = False,
                                  client = s, usedTime = connTime\<rparr>
                         in ((Some conn, None),
                             w4\<lparr>conns := (conns w4)(conn := c), nextConn := Suc conn\<rparr>))))"

definition Get ::
  "thrift \<Rightarrow> world \<Rightarrow> int64 \<Rightarrow> int64 \<Rightarrow> (ref option \<times> error option) \<times> world" where
  "Get lib w accessTime connTime = get lib w False accessTime connTime"

subsection \<open>put\<close>

text \<open>\<^verbatim>\<open>_ = conn.Close(); t.subIdle()\<close>, the way \<^verbatim>\<open>put\<close> gives a connection up.\<close>

definition discard :: "thrift \<Rightarrow> world \<Rightarrow> ref \<Rightarrow> world" where
  "discard lib w conn = snd (subIdle (snd (ThriftConn_Close lib w conn)))"

text \<open>The closing \<^verbatim>\<open>select\<close> of \<^verbatim>\<open>put\<close>; \<open>usedv\<close> is the value \<^verbatim>\<open>subUsed\<close> returned.\<close>

definition put_select :: "thrift \<Rightarrow> world \<Rightarrow> ref \<Rightarrow> int32 \<Rightarrow> error option outcome \<times> world" where
  "put_select lib w conn usedv =
     (case select_send (clients (pool w)) conn of
        Panic \<Rightarrow> (Panic, w)
      | Return (Some c) \<Rightarrow> (Return None, w\<lparr>pool := (pool w)\<lparr>clients := c\<rparr>\<rparr>)
      | Return None \<Rightarrow>
          let w1 = discard lib w conn
          in (Return (Some (PutFailed usedv (InitSize (pool w1)) (GetIdle w1))), w1))"

text \<open>
  The body of \<^verbatim>\<open>put\<close> after the deferred function is set up. \<open>now\<close> is the
  clock read by \<^verbatim>\<open>conn.UpdateUsedTime()\<close> or by \<^verbatim>\<open>time.Now().Unix()\<close>.
  \<^verbatim>\<open>conn\<close> is a connection, not nil.
\<close>

definition put_body ::
  "thrift \<Rightarrow> world \<Rightarrow> ref \<Rightarrow> bool \<Rightarrow> int64 \<Rightarrow> error option outcome \<times> world" where
  "put_body lib w0 conn doNotNew now =
     (let (usedv, w1) = subUsed w0
      in if closed (pool w1) = 1 then
           (if \<not> IsClose w1 conn then (Return None, snd (ThriftConn_Close lib w1 conn))
            else (Return None, w1))
         else if IsClose w1 conn then (Return None, w1)
         else
           let (idlev, w2) = addIdle w1;
               usedTimev = GetUsedTime w2 conn;
               (nowTime, w3) = (if \<not> doNotNew then UpdateUsedTime w2 conn now else (now, w2))
           in if InitSize (pool w3) <s idlev then
                (if usedTimev <s nowTime then
                   let iTime = nowTime - usedTimev
                   in if scast (IdleTimeout (pool w3)) <s iTime then
                        (Return None, discard lib w3 conn)
                      else if MaxSize (pool w3) <s idlev then
                        (Return None, discard lib w3 conn)
                      else put_select lib w3 conn usedv
                 else put_select lib w3 conn usedv)
              else put_select lib w3 conn usedv)"

text \<open>
  \<^verbatim>\<open>put\<close> with its deferred function: a panic of the body is recovered, the
  connection is given up, and the result is the zero value nil.
\<close>

definition put ::
  "thrift \<Rightarrow> world \<Rightarrow> ref \<Rightarrow> bool \<Rightarrow> int64 \<Rightarrow> int64 \<Rightarrow> error option outcome \<times> world" where
  "put lib w conn doNotNew accessTime now =
     (let w0 = w\<lparr>pool := (pool w)\<lparr>assessTime := accessTime\<rparr>\<rparr>
      in case put_body lib w0 conn doNotNew now of
           (Return r, w1) \<Rightarrow> (Return r, w1)
         | (Panic, w1) \<Rightarrow> (Return None, discard lib w1 conn))"

definition Put ::
  "thrift \<Rightarrow> world \<Rightarrow> ref \<Rightarrow> int64 \<Rightarrow> int64 \<Rightarrow> error option outcome \<times> world" where
  "Put lib w conn accessTime now = put lib w conn False accessTime now"

subsection \<open>Close\<close>

text \<open>
  \<^verbatim>\<open>for conn := range t.clients\<close> on the closed channel: every waiting connection
  is received and closed. \<^verbatim>\<open>put\<close> only ever sends its own non-nil argument, so
  the loop's nil test never holds.
\<close>

fun closeEach :: "thrift \<Rightarrow> ref list \<Rightarrow> world \<Rightarrow> world" where
  "closeEach lib [] w = w"
| "closeEach lib (conn # rest) w = closeEach lib rest (snd (ThriftConn_Close lib w conn))"

text \<open>
  \<^verbatim>\<open>Close\<close>: the compare-and-swap of the flag from 0 to 1, \<^verbatim>\<open>close(t.clients)\<close>
  (which panics on a channel already closed), then the loop.
\<close>

definition Close :: "thrift \<Rightarrow> world \<Rightarrow> unit outcome \<times> world" where
  "Close lib w =
     (if closed (pool w) \<noteq> 0 then (Return (), w)
      else
        let w1 = w\<lparr>pool := (pool w)\<lparr>closed := 1\<rparr>\<rparr>
        in if chan_closed (clients (pool w1)) then (Panic, w1)
           else
             let waiting = buf (clients (pool w1));
                 w2 = w1\<lparr>pool := (pool w1)
                        \<lparr>clients := (clients (pool w1))\<lparr>buf := [], chan_closed := True\<rparr>\<rparr>\<rparr>
             in (Return (), closeEach lib waiting w2))"

subsection \<open>Example runs\<close>

text \<open>A library whose calls all succeed; a dial yields a socket not handed out before.\<close>

definition lib_ok :: thrift where
  "lib_ok = \<lparr>NewTSocketTimeout = (\<lambda>tr e d. Inr (length tr)),
             NewTSocket = (\<lambda>tr e. Inr (length tr)),
             TSocket_Open = (\<lambda>tr s. None),
             TSocket_Close = (\<lambda>tr s. None)\<rparr>"

text \<open>
  The pool \<^verbatim>\<open>NewThriftPool("127.0.0.1:9898", 3, 5, 2, 1)\<close> before any call, with an
  empty store.
\<close>

definition start :: world where
  "start =
     \<lparr>pool = \<lparr>Endpoint = ''127.0.0.1:9898'', DialTimeout = 3, IdleTimeout = 5, MaxSize = 2,
              InitSize = 1, used = 0, idle = 0, assessTime = 0, closed = 0,
              clients = \<lparr>buf = [], cap = 2, chan_closed = False\<rparr>\<rparr>,
      conns = (\<lambda>_. \<lparr>conn_Endpoint = [], conn_closed = False, client = 0, usedTime = 0\<rparr>),
      nextConn = 0, trace = []\<rparr>"

text \<open>Two calls of \<^verbatim>\<open>Get\<close> at second 100: connections 0 and 1 are leased.\<close>

definition two_leases :: world where
  "two_leases = snd (Get lib_ok (snd (Get lib_ok start 100 100)) 100 100)"

text \<open>Then \<^verbatim>\<open>Put\<close> of connection 0, and of connection 1, in the same second.\<close>

definition one_back :: world where
  "one_back = snd (Put lib_ok two_leases 0 100 100)"

definition both_back :: world where
  "both_back = snd (Put lib_ok one_back 1 100 100)"

text \<open>
  Both connections are taken again a second later: nothing waits in the channel, which
  is how callers of \<^verbatim>\<open>Get\<close> can leave it to a reclaimer that has already read
  \<^verbatim>\<open>idle\<close> as 2.
\<close>

definition drained :: world where
  "drained = snd (Get lib_ok (snd (Get lib_ok both_back 101 101)) 101 101)"

text \<open>
  What racing calls of \<^verbatim>\<open>Get\<close> can leave behind on that pool: a third connection,
  leased, while two wait in the channel.
\<close>

definition raced :: world where
  "raced =
     both_back\<lparr>pool := (pool both_back)\<lparr>used := 1\<rparr>,
               conns := (conns both_back)
                 (2 := \<lparr>conn_Endpoint = ''127.0.0.1:9898'', conn_closed = False, client = 4,
                        usedTime = 100\<rparr>),
               nextConn := 3,
               trace := trace both_back @
                 [CallNewTSocketTimeout ''127.0.0.1:9898'' 3000000000, CallOpen 4]\<rparr>"

text \<open>\<^verbatim>\<open>Close\<close> while connection 1 is still leased.\<close>

definition shut :: world where
  "shut = snd (Close lib_ok one_back)"

section \<open>Proofs\<close>

subsection \<open>Evaluating the example runs\<close>

lemmas cmp_defs = word_sless_alt word_sle_eq

lemmas get_defs = Get_def get_def addUsed_def subUsed_def subIdle_def select_recv_def
  dial_def open_client_def Let_def

lemmas put_defs = Put_def put_def put_body_def put_select_def select_send_def discard_def
  addIdle_def subUsed_def subIdle_def IsClose_def GetUsedTime_def UpdateUsedTime_def
  ThriftConn_Close_def GetIdle_def Let_def

lemma NewThriftPool_start: "NewThriftPool ''127.0.0.1:9898'' 3 5 2 1 = Some (pool start)"
  by (simp add: NewThriftPool_def make_chan_def start_def cmp_defs)

lemma one_lease_eq:
  "snd (Get lib_ok start 100 100) =
     start\<lparr>pool := (pool start)\<lparr>used := 1, assessTime := 100\<rparr>,
           conns := (conns start)
             (0 := \<lparr>conn_Endpoint = ''127.0.0.1:9898'', conn_closed = False, client = 0,
                    usedTime = 100\<rparr>),
           nextConn := 1,
           trace := [CallNewTSocketTimeout ''127.0.0.1:9898'' 3000000000, CallOpen 0]\<rparr>"
  by (simp add: start_def lib_ok_def get_defs cmp_defs)

lemma two_leases_eq:
  "two_leases =
     \<lparr>pool = \<lparr>Endpoint = ''127.0.0.1:9898'', DialTimeout = 3, IdleTimeout = 5, MaxSize = 2,
              InitSize = 1, used = 2, idle = 0, assessTime = 100, closed = 0,
              clients = \<lparr>buf = [], cap = 2, chan_closed = False\<rparr>\<rparr>,
      conns = (\<lambda>_. \<lparr>conn_Endpoint = [], conn_closed = False, client = 0, usedTime = 0\<rparr>)
        (0 := \<lparr>conn_Endpoint = ''127.0.0.1:9898'', conn_closed = False, client = 0,
               usedTime = 100\<rparr>,
         1 := \<lparr>conn_Endpoint = ''127.0.0.1:9898'', conn_closed = False, client = 2,
               usedTime = 100\<rparr>),
      nextConn = 2,
      trace = [CallNewTSocketTimeout ''127.0.0.1:9898'' 3000000000, CallOpen 0,
               CallNewTSocketTimeout ''127.0.0.1:9898'' 3000000000, CallOpen 2]\<rparr>"
  unfolding two_leases_def one_lease_eq
  by (simp add: start_def lib_ok_def get_defs cmp_defs numeral_2_eq_2 [symmetric])

lemma one_back_eq:
  "one_back = two_leases\<lparr>pool := (pool two_leases)
      \<lparr>used := 1, idle := 1, clients := \<lparr>buf = [0], cap = 2, chan_closed = False\<rparr>\<rparr>\<rparr>"
  unfolding one_back_def two_leases_eq
  by (simp add: put_defs cmp_defs fun_eq_iff)

lemma both_back_eq:
  "both_back = two_leases\<lparr>pool := (pool two_leases)
      \<lparr>used := 0, idle := 2, clients := \<lparr>buf = [0, 1], cap = 2, chan_closed = False\<rparr>\<rparr>\<rparr>"
  unfolding both_back_def one_back_eq two_leases_eq
  by (simp add: put_defs cmp_defs fun_eq_iff)

lemma drained_eq:
  "drained = two_leases\<lparr>pool := (pool two_leases)\<lparr>assessTime := 101\<rparr>\<rparr>"
  unfolding drained_def both_back_eq two_leases_eq
  by (simp add: get_defs)

lemma shut_eq:
  "shut = two_leases\<lparr>pool := (pool two_leases)
      \<lparr>used := 1, idle := 1, closed := 1, clients := \<lparr>buf = [], cap = 2, chan_closed = True\<rparr>\<rparr>,
      conns := (conns two_leases)(0 := (conns two_leases 0)\<lparr>conn_closed := True\<rparr>),
      trace := trace two_leases @ [CallClose 0]\<rparr>"
  unfolding shut_def one_back_eq two_leases_eq
  by (simp add: Close_def ThriftConn_Close_def lib_ok_def Let_def fun_eq_iff)

subsection \<open>NewThriftPool\<close>

lemma NewThriftPool_MaxSize_not_negative:
  "\<not> (if maxSize <s 1 then 100 else if maxSize \<le>s initSize * 2 then initSize * 2 else maxSize)
       <s (0 :: int32)"
  by (simp add: cmp_defs)

text \<open>
  C7. \<^verbatim>\<open>NewThriftPool\<close> returns a pool for every input (the \<^verbatim>\<open>make\<close> of the
  channel cannot panic, since the MaxSize it computes is at least 1), with exactly these
  settings: DialTimeout is 5 when the argument is below 1, IdleTimeout is 10 when the
  argument is below 1, MaxSize is 100 when maxSize is below 1, else \<^verbatim>\<open>initSize * 2\<close>
  when maxSize is at most that, else maxSize; InitSize is 1 when initSize is below 1;
  each of them is the argument otherwise. used, idle and closed start at 0, and the
  channel is open, empty and of capacity MaxSize. The product \<^verbatim>\<open>initSize * 2\<close> is Go's,
  on \<^verbatim>\<open>int32\<close>.
\<close>

theorem NewThriftPool_defaults:
  "\<exists>t. NewThriftPool endpoint dialTimeout idleTimeout maxSize initSize = Some t
     \<and> Endpoint t = endpoint
     \<and> DialTimeout t = (if dialTimeout <s 1 then 5 else dialTimeout)
     \<and> IdleTimeout t = (if idleTimeout <s 1 then 10 else idleTimeout)
     \<and> MaxSize t = (if maxSize <s 1 then 100
                    else if maxSize \<le>s initSize * 2 then initSize * 2
                    else maxSize)
     \<and> InitSize t = (if initSize <s 1 then 1 else initSize)
     \<and> used t = 0 \<and> idle t = 0 \<and> closed t = 0
     \<and> buf (clients t) = [] \<and> \<not> chan_closed (clients t)
     \<and> int (cap (clients t)) = sint (MaxSize t)
     \<and> 1 \<le>s MaxSize t"
  using NewThriftPool_MaxSize_not_negative [of maxSize initSize]
  by (simp add: NewThriftPool_def make_chan_def Let_def cmp_defs)

subsection \<open>get\<close>



text \<open>
  With nothing waiting on the open channel, \<^verbatim>\<open>get(true)\<close> returns nil and no
  error and leaves \<^verbatim>\<open>used\<close> incremented.
\<close>

lemma get_doNotNew_default:
  assumes "buf (clients (pool w)) = []"
      and "\<not> chan_closed (clients (pool w))"
  shows "get lib w True accessTime connTime =
           ((None, None),
            w\<lparr>pool := (pool w)\<lparr>assessTime := accessTime, used := used (pool w) + 1\<rparr>\<rparr>)"
  using assms by (simp add: get_defs)

text \<open>
  C1. Two connections have been leased, released and leased again, so that the channel
  is open and empty and \<^verbatim>\<open>used\<close> is 2. There \<^verbatim>\<open>get(true)\<close> returns nil and no
  error, and \<^verbatim>\<open>used\<close> is 3 after the call: the increment made on entry is not
  taken back on this path.
\<close>

theorem get_doNotNew_keeps_increment:
  "buf (clients (pool drained)) = []
   \<and> \<not> chan_closed (clients (pool drained))
   \<and> fst (get lib_ok drained True 102 102) = (None, None)
   \<and> GetUsed drained = 2
   \<and> GetUsed (snd (get lib_ok drained True 102 102)) = 3"
proof -
  have e: "buf (clients (pool drained)) = []"
    and o: "\<not> chan_closed (clients (pool drained))"
    and u: "GetUsed drained = 2"
    by (simp_all add: drained_eq two_leases_eq GetUsed_def)
  from get_doNotNew_default [OF e o, of lib_ok 102 102] e o u show ?thesis
    by (simp add: GetUsed_def)
qed

subsection \<open>put on a closed pool\<close>

text \<open>
  C3. When the pool's closed flag is 1, \<^verbatim>\<open>put\<close> returns nil, and its body gets
  there without a panic; the connection is closed afterwards; the handle's
  \<^verbatim>\<open>Close\<close> is called exactly when the connection was not closed already; and the
  channel is what it was, so the connection has not been queued.
\<close>

theorem put_on_closed_pool:
  assumes "closed (pool w) = 1"
  shows "fst (put lib w conn doNotNew accessTime now) = Return None
       \<and> fst (put_body lib (w\<lparr>pool := (pool w)\<lparr>assessTime := accessTime\<rparr>\<rparr>) conn doNotNew now)
           = Return None
       \<and> conn_closed (conns (snd (put lib w conn doNotNew accessTime now)) conn)
       \<and> trace (snd (put lib w conn doNotNew accessTime now)) =
           (if conn_closed (conns w conn) then trace w
            else trace w @ [CallClose (client (conns w conn))])
       \<and> clients (pool (snd (put lib w conn doNotNew accessTime now))) = clients (pool w)"
  using assms
  by (simp add: put_def put_body_def subUsed_def IsClose_def ThriftConn_Close_def Let_def)

theorem put_on_closed_pool_witness:
  "closed (pool shut) = 1
   \<and> \<not> conn_closed (conns shut 1)
   \<and> fst (Put lib_ok shut 1 101 101) = Return None
   \<and> conn_closed (conns (snd (Put lib_ok shut 1 101 101)) 1)
   \<and> trace (snd (Put lib_ok shut 1 101 101)) = trace shut @ [CallClose 2]
   \<and> buf (clients (pool (snd (Put lib_ok shut 1 101 101)))) = []"
proof -
  have h: "closed (pool shut) = 1"
    by (simp add: shut_eq)
  from put_on_closed_pool [OF h, of lib_ok 1 False 101 101] h show ?thesis
    by (simp add: Put_def shut_eq two_leases_eq)
qed

text \<open>
  \<^verbatim>\<open>put\<close> never lets a panic of its body out. When \<^verbatim>\<open>Close\<close> has closed the
  channel after \<^verbatim>\<open>put\<close> has read the flag as 0, the connection ends up closed, not
  queued, and the result is nil, whether the eviction policy or the recovered panic of
  the send gets there.
\<close>

lemma put_returns: "\<exists>r. fst (put lib w conn doNotNew accessTime now) = Return r"
  by (simp add: put_def Let_def split: prod.split outcome.split)

lemma put_on_closed_channel:
  assumes "closed (pool w) \<noteq> 1"
      and "\<not> conn_closed (conns w conn)"
      and "chan_closed (clients (pool w))"
  shows "fst (put lib w conn doNotNew accessTime now) = Return None
       \<and> conn_closed (conns (snd (put lib w conn doNotNew accessTime now)) conn)
       \<and> clients (pool (snd (put lib w conn doNotNew accessTime now))) = clients (pool w)
       \<and> GetIdle (snd (put lib w conn doNotNew accessTime now)) = GetIdle w"
  using assms by (cases doNotNew) (simp_all add: put_defs)

subsection \<open>put on an open pool: the eviction policy\<close>

lemma raced_eq:
  "raced = two_leases\<lparr>pool := (pool two_leases)
      \<lparr>used := 1, idle := 2, clients := \<lparr>buf = [0, 1], cap = 2, chan_closed = False\<rparr>\<rparr>,
      conns := (conns two_leases)
        (2 := \<lparr>conn_Endpoint = ''127.0.0.1:9898'', conn_closed = False, client = 4,
               usedTime = 100\<rparr>),
      nextConn := 3,
      trace := trace two_leases @
        [CallNewTSocketTimeout ''127.0.0.1:9898'' 3000000000, CallOpen 4]\<rparr>"
  by (simp add: raced_def both_back_eq)

lemma sint_scast_int32: "sint (scast (x :: int32) :: int64) = sint x"
  by (rule sint_up_scast) (simp add: is_up)

lemma sint_diff_int64:
  fixes a b :: int64
  assumes "- (2 ^ 63) \<le> sint a - sint b" and "sint a - sint b < 2 ^ 63"
  shows "sint (a - b) = sint a - sint b"
  using assms by (simp add: sint_word_ariths signed_take_bit_int_eq_self)

lemma stale_test:
  fixes now u :: int64 and tmo :: int32
  assumes "0 \<le> sint tmo" and "0 \<le> sint u" and "sint tmo < sint now - sint u"
  shows "u <s now \<and> scast tmo <s now - u"
proof -
  have "sint now < 2 ^ 63"
    using sint_lt [of now] by simp
  with assms have "sint (now - u) = sint now - sint u"
    by (intro sint_diff_int64) simp_all
  with assms show ?thesis
    by (simp add: cmp_defs sint_scast_int32)
qed

text \<open>Both evicting branches of \<^verbatim>\<open>put\<close> end in the same state.\<close>

lemma put_evicts:
  assumes "closed (pool w) \<noteq> 1"
      and "\<not> conn_closed (conns w conn)"
      and "InitSize (pool w) <s idle (pool w) + 1"
      and "usedTime (conns w conn) <s now"
      and "scast (IdleTimeout (pool w)) <s now - usedTime (conns w conn)
           \<or> MaxSize (pool w) <s idle (pool w) + 1"
  shows "put lib w conn doNotNew accessTime now =
           (Return None,
            w\<lparr>pool := (pool w)\<lparr>assessTime := accessTime, used := used (pool w) - 1\<rparr>,
              conns := (conns w)
                (conn := (conns w conn)
                   \<lparr>usedTime := (if doNotNew then usedTime (conns w conn) else now),
                    conn_closed := True\<rparr>),
              trace := trace w @ [CallClose (client (conns w conn))]\<rparr>)"
  using assms by (cases doNotNew) (auto simp add: put_defs)

text \<open>
  C4, as the claim states it, fails, in two ways. Connection 1 was last used 100.2
  seconds after the epoch and is released to the open pool at 105.9 seconds, where
  \<^verbatim>\<open>idle\<close> after the increment is 2, above the InitSize of 1. The 5.7 seconds elapsed
  exceed the IdleTimeout of 5 seconds, yet \<^verbatim>\<open>Put\<close> queues the connection, open, and
  \<^verbatim>\<open>GetIdle\<close> goes from 1 to 2: the code compares the two readings in whole seconds,
  105 and 100, and 5 is not more than 5. Released at second 106 instead, the connection
  is closed and not queued, but \<^verbatim>\<open>GetIdle\<close> is 1 after the call as it was before:
  it has not decreased.
\<close>

theorem put_stale_counterexample:
  "closed (pool one_back) \<noteq> 1
   \<and> \<not> conn_closed (conns one_back 1)
   \<and> InitSize (pool one_back) <s idle (pool one_back) + 1
   \<and> GetIdle one_back = 1
   \<and> usedTime (conns one_back 1) = Unix 100200000000
   \<and> sint (IdleTimeout (pool one_back)) * 1000000000 < 105900000000 - 100200000000
   \<and> fst (Put lib_ok one_back 1 (Unix 105900000000) (Unix 105900000000)) = Return None
   \<and> \<not> conn_closed
         (conns (snd (Put lib_ok one_back 1 (Unix 105900000000) (Unix 105900000000))) 1)
   \<and> buf (clients (pool
         (snd (Put lib_ok one_back 1 (Unix 105900000000) (Unix 105900000000))))) = [0, 1]
   \<and> GetIdle (snd (Put lib_ok one_back 1 (Unix 105900000000) (Unix 105900000000))) = 2
   \<and> sint (IdleTimeout (pool one_back)) < sint (106 :: int64) - sint (usedTime (conns one_back 1))
   \<and> conn_closed (conns (snd (Put lib_ok one_back 1 106 106)) 1)
   \<and> GetIdle (snd (Put lib_ok one_back 1 106 106)) = 1
   \<and> \<not> GetIdle (snd (Put lib_ok one_back 1 106 106)) <s GetIdle one_back"
proof -
  have u: "Unix 100200000000 = 100" and n: "Unix 105900000000 = 105"
    by (simp_all add: Unix_def)
  show ?thesis
    unfolding u n
    by (simp add: one_back_eq two_leases_eq put_defs cmp_defs)
qed

text \<open>
  C4, amended: a connection that is not closed is released to an open pool; after the
  increment \<^verbatim>\<open>idle\<close> exceeds InitSize, and the whole seconds elapsed, the Unix second
  of the release less the Unix second of the connection's last use, exceed IdleTimeout.
  Then \<^verbatim>\<open>put\<close> returns nil, the connection is closed through its handle, the channel
  is what it was (the connection is not queued), and the increment of \<^verbatim>\<open>idle\<close> is
  taken back: \<^verbatim>\<open>GetIdle\<close> reads after the release what it read before.
  IdleTimeout is not negative (\<^verbatim>\<open>NewThriftPool\<close> and \<^verbatim>\<open>SetIdleTimeout\<close> keep it
  at 1 or more) and the last use is not before the epoch, so that the elapsed seconds are
  what the \<^verbatim>\<open>int64\<close> subtraction yields.
\<close>

theorem put_evicts_stale:
  assumes "closed (pool w) \<noteq> 1"
      and "\<not> conn_closed (conns w conn)"
      and "InitSize (pool w) <s idle (pool w) + 1"
      and "0 \<le> sint (IdleTimeout (pool w))"
      and "0 \<le> sint (usedTime (conns w conn))"
      and "sint (IdleTimeout (pool w)) < sint now - sint (usedTime (conns w conn))"
  shows "fst (put lib w conn doNotNew accessTime now) = Return None
       \<and> conn_closed (conns (snd (put lib w conn doNotNew accessTime now)) conn)
       \<and> trace (snd (put lib w conn doNotNew accessTime now)) =
           trace w @ [CallClose (client (conns w conn))]
       \<and> clients (pool (snd (put lib w conn doNotNew accessTime now))) = clients (pool w)
       \<and> GetIdle (snd (put lib w conn doNotNew accessTime now)) = GetIdle w"
proof -
  from assms(4-6)
  have "usedTime (conns w conn) <s now"
    and "scast (IdleTimeout (pool w)) <s now - usedTime (conns w conn)"
    using stale_test [of "IdleTimeout (pool w)" "usedTime (conns w conn)" now] by simp_all
  with assms(1-3) show ?thesis
    by (simp add: put_evicts GetIdle_def)
qed

theorem put_evicts_stale_witness:
  "closed (pool one_back) \<noteq> 1
   \<and> \<not> conn_closed (conns one_back 1)
   \<and> InitSize (pool one_back) <s idle (pool one_back) + 1
   \<and> 0 \<le> sint (IdleTimeout (pool one_back))
   \<and> 0 \<le> sint (usedTime (conns one_back 1))
   \<and> sint (IdleTimeout (pool one_back)) < sint (106 :: int64) - sint (usedTime (conns one_back 1))
   \<and> fst (Put lib_ok one_back 1 106 106) = Return None
   \<and> conn_closed (conns (snd (Put lib_ok one_back 1 106 106)) 1)
   \<and> trace (snd (Put lib_ok one_back 1 106 106)) = trace one_back @ [CallClose 2]
   \<and> buf (clients (pool (snd (Put lib_ok one_back 1 106 106)))) = [0]
   \<and> GetIdle one_back = 1
   \<and> GetIdle (snd (Put lib_ok one_back 1 106 106)) = 1"
proof -
  have h1: "closed (pool one_back) \<noteq> 1"
    and h2: "\<not> conn_closed (conns one_back 1)"
    and h3: "InitSize (pool one_back) <s idle (pool one_back) + 1"
    and h4: "0 \<le> sint (IdleTimeout (pool one_back))"
    and h5: "0 \<le> sint (usedTime (conns one_back 1))"
    and h6: "sint (IdleTimeout (pool one_back))
               < sint (106 :: int64) - sint (usedTime (conns one_back 1))"
    by (simp_all add: one_back_eq two_leases_eq cmp_defs)
  from put_evicts_stale [OF h1 h2 h3 h4 h5 h6, of lib_ok False 106] h1 h2 h3 h4 h5 h6
  show ?thesis
    by (simp add: Put_def GetIdle_def one_back_eq two_leases_eq)
qed

text \<open>
  Where \<^verbatim>\<open>GetIdle\<close> does go down is over the pair of calls the reclaimer makes:
  \<^verbatim>\<open>get(true)\<close> takes the oldest waiting connection and lowers \<^verbatim>\<open>idle\<close>, and
  \<^verbatim>\<open>put(conn, true)\<close>, finding it stale, closes it and leaves \<^verbatim>\<open>idle\<close> there.
\<close>

lemma reclaim_stale_lowers_idle:
  assumes "closed (pool w) \<noteq> 1"
      and "buf (clients (pool w)) = conn # waiting"
      and "\<not> conn_closed (conns w conn)"
      and "InitSize (pool w) <s idle (pool w)"
      and "0 \<le> sint (IdleTimeout (pool w))"
      and "0 \<le> sint (usedTime (conns w conn))"
      and "sint (IdleTimeout (pool w)) < sint now - sint (usedTime (conns w conn))"
  shows "fst (get lib w True t0 t1) = (Some conn, None)
       \<and> fst (put lib (snd (get lib w True t0 t1)) conn True t2 now) = Return None
       \<and> conn_closed (conns (snd (put lib (snd (get lib w True t0 t1)) conn True t2 now)) conn)
       \<and> buf (clients (pool (snd (put lib (snd (get lib w True t0 t1)) conn True t2 now))))
           = waiting
       \<and> GetIdle (snd (put lib (snd (get lib w True t0 t1)) conn True t2 now)) = GetIdle w - 1"
proof -
  define w' where
    "w' = w\<lparr>pool := (pool w)\<lparr>assessTime := t0, used := used (pool w) + 1,
              clients := (clients (pool w))\<lparr>buf := waiting\<rparr>, idle := idle (pool w) - 1\<rparr>\<rparr>"
  have g: "get lib w True t0 t1 = ((Some conn, None), w')"
    using assms(2) by (simp add: get_defs w'_def)
  from assms(5-7)
  have s: "usedTime (conns w' conn) <s now"
    "scast (IdleTimeout (pool w')) <s now - usedTime (conns w' conn)"
    using stale_test [of "IdleTimeout (pool w)" "usedTime (conns w conn)" now]
    by (simp_all add: w'_def)
  from assms(1,3,4) have p: "closed (pool w') \<noteq> 1" "\<not> conn_closed (conns w' conn)"
    "InitSize (pool w') <s idle (pool w') + 1"
    by (simp_all add: w'_def)
  from p s show ?thesis
    unfolding g by (simp add: put_evicts GetIdle_def) (simp add: w'_def)
qed

lemma reclaim_stale_example:
  "GetIdle both_back = 2
   \<and> GetIdle (snd (put lib_ok (snd (get lib_ok both_back True 106 106)) 0 True 106 106)) = 1"
proof -
  have "closed (pool both_back) \<noteq> 1" "buf (clients (pool both_back)) = 0 # [1]"
    "\<not> conn_closed (conns both_back 0)" "InitSize (pool both_back) <s idle (pool both_back)"
    "0 \<le> sint (IdleTimeout (pool both_back))" "0 \<le> sint (usedTime (conns both_back 0))"
    "sint (IdleTimeout (pool both_back)) < sint (106 :: int64) - sint (usedTime (conns both_back 0))"
    by (simp_all add: both_back_eq two_leases_eq cmp_defs)
  from reclaim_stale_lowers_idle [OF this, of lib_ok 106 106 106] show ?thesis
    by (simp add: GetIdle_def both_back_eq two_leases_eq)
qed

text \<open>
  C5, as the claim states it, fails. On the pool with MaxSize 2 and InitSize 1 where two
  connections wait and a third is released in the second of its last use, \<^verbatim>\<open>idle\<close>
  after the increment is 3, above InitSize and above MaxSize, and no second has elapsed,
  which is not more than the IdleTimeout of 5: yet \<^verbatim>\<open>Put\<close> does not return nil. The
  test of MaxSize is not reached, the full channel refuses the connection, and the result
  is the error made of used 0, InitSize 1 and idle 2.
\<close>

theorem put_over_capacity_counterexample:
  "closed (pool raced) \<noteq> 1
   \<and> \<not> conn_closed (conns raced 2)
   \<and> InitSize (pool raced) <s idle (pool raced) + 1
   \<and> sint (100 :: int64) - sint (usedTime (conns raced 2)) \<le> sint (IdleTimeout (pool raced))
   \<and> MaxSize (pool raced) <s idle (pool raced) + 1
   \<and> fst (Put lib_ok raced 2 100 100) = Return (Some (PutFailed 0 1 2))"
  by (simp add: raced_eq two_leases_eq put_defs cmp_defs)

text \<open>
  C5, amended: when moreover the clock's second at the release is strictly later than the
  second of the connection's last use, the release of a connection that is not closed to
  an open pool, with \<^verbatim>\<open>idle\<close> after the increment above InitSize and above MaxSize
  and with no more than IdleTimeout seconds elapsed, returns nil, closes the connection
  through its handle, leaves the channel as it was and \<^verbatim>\<open>idle\<close> one less than the
  incremented value.
\<close>

theorem put_evicts_over_capacity:
  assumes "closed (pool w) \<noteq> 1"
      and "\<not> conn_closed (conns w conn)"
      and "InitSize (pool w) <s idle (pool w) + 1"
      and "sint (usedTime (conns w conn)) < sint now"
      and "sint now - sint (usedTime (conns w conn)) \<le> sint (IdleTimeout (pool w))"
      and "MaxSize (pool w) <s idle (pool w) + 1"
  shows "fst (put lib w conn doNotNew accessTime now) = Return None
       \<and> conn_closed (conns (snd (put lib w conn doNotNew accessTime now)) conn)
       \<and> trace (snd (put lib w conn doNotNew accessTime now)) =
           trace w @ [CallClose (client (conns w conn))]
       \<and> clients (pool (snd (put lib w conn doNotNew accessTime now))) = clients (pool w)
       \<and> GetIdle (snd (put lib w conn doNotNew accessTime now)) = (GetIdle w + 1) - 1"
proof -
  from assms(4) have "usedTime (conns w conn) <s now"
    by (simp add: cmp_defs)
  with assms(1-3,6) show ?thesis
    by (simp add: put_evicts GetIdle_def)
qed

theorem put_evicts_over_capacity_witness:
  "closed (pool raced) \<noteq> 1
   \<and> \<not> conn_closed (conns raced 2)
   \<and> InitSize (pool raced) <s idle (pool raced) + 1
   \<and> sint (usedTime (conns raced 2)) < sint (103 :: int64)
   \<and> sint (103 :: int64) - sint (usedTime (conns raced 2)) \<le> sint (IdleTimeout (pool raced))
   \<and> MaxSize (pool raced) <s idle (pool raced) + 1
   \<and> fst (Put lib_ok raced 2 103 103) = Return None
   \<and> conn_closed (conns (snd (Put lib_ok raced 2 103 103)) 2)
   \<and> trace (snd (Put lib_ok raced 2 103 103)) = trace raced @ [CallClose 4]
   \<and> buf (clients (pool (snd (Put lib_ok raced 2 103 103)))) = [0, 1]
   \<and> GetIdle raced = 2
   \<and> GetIdle (snd (Put lib_ok raced 2 103 103)) = 2"
proof -
  have h1: "closed (pool raced) \<noteq> 1"
    and h2: "\<not> conn_closed (conns raced 2)"
    and h3: "InitSize (pool raced) <s idle (pool raced) + 1"
    and h4: "sint (usedTime (conns raced 2)) < sint (103 :: int64)"
    and h5: "sint (103 :: int64) - sint (usedTime (conns raced 2))
               \<le> sint (IdleTimeout (pool raced))"
    and h6: "MaxSize (pool raced) <s idle (pool raced) + 1"
    by (simp_all add: raced_eq two_leases_eq cmp_defs)
  from put_evicts_over_capacity [OF h1 h2 h3 h4 h5 h6, of lib_ok False 103] h1 h2 h3 h4 h5 h6
  show ?thesis
    by (simp add: Put_def GetIdle_def raced_eq two_leases_eq)
qed

text \<open>
  C10. A connection that is not closed is released to an open pool and \<^verbatim>\<open>idle\<close>
  after the increment exceeds InitSize, but the clock's second is not strictly later than
  the second of the connection's last use. Then the body of \<^verbatim>\<open>put\<close> is its closing
  \<^verbatim>\<open>select\<close>, run after the two counters and (unless doNotNew) the time of last use
  have been updated: neither IdleTimeout nor MaxSize is looked at. With room in the open
  channel the connection is therefore queued, still open.
\<close>

theorem put_skips_eviction_policy:
  assumes "closed (pool w) \<noteq> 1"
      and "\<not> conn_closed (conns w conn)"
      and "InitSize (pool w) <s idle (pool w) + 1"
      and "now \<le>s usedTime (conns w conn)"
  shows "put_body lib w conn doNotNew now =
           put_select lib
             (w\<lparr>pool := (pool w)\<lparr>used := used (pool w) - 1, idle := idle (pool w) + 1\<rparr>,
                conns := (conns w)
                  (conn := (conns w conn)
                     \<lparr>usedTime := (if doNotNew then usedTime (conns w conn) else now)\<rparr>)\<rparr>)
             conn (used (pool w) - 1)
       \<and> (\<not> chan_closed (clients (pool w))
            \<and> length (buf (clients (pool w))) < cap (clients (pool w))
          \<longrightarrow> fst (put lib w conn doNotNew accessTime now) = Return None
            \<and> buf (clients (pool (snd (put lib w conn doNotNew accessTime now))))
                = buf (clients (pool w)) @ [conn]
            \<and> \<not> conn_closed (conns (snd (put lib w conn doNotNew accessTime now)) conn))"
proof -
  from assms(4) have "\<not> usedTime (conns w conn) <s now"
    by (simp add: cmp_defs)
  with assms(1-3) show ?thesis
    by (cases doNotNew) (simp_all add: put_defs)
qed

theorem put_skips_eviction_policy_witness:
  "closed (pool one_back) \<noteq> 1
   \<and> \<not> conn_closed (conns one_back 1)
   \<and> InitSize (pool one_back) <s idle (pool one_back) + 1
   \<and> (100 :: int64) \<le>s usedTime (conns one_back 1)
   \<and> \<not> chan_closed (clients (pool one_back))
   \<and> length (buf (clients (pool one_back))) < cap (clients (pool one_back))
   \<and> fst (Put lib_ok one_back 1 100 100) = Return None
   \<and> buf (clients (pool (snd (Put lib_ok one_back 1 100 100)))) = [0, 1]
   \<and> \<not> conn_closed (conns (snd (Put lib_ok one_back 1 100 100)) 1)"
proof -
  have h1: "closed (pool one_back) \<noteq> 1"
    and h2: "\<not> conn_closed (conns one_back 1)"
    and h3: "InitSize (pool one_back) <s idle (pool one_back) + 1"
    and h4: "(100 :: int64) \<le>s usedTime (conns one_back 1)"
    and h5: "\<not> chan_closed (clients (pool one_back))"
    and h6: "length (buf (clients (pool one_back))) < cap (clients (pool one_back))"
    by (simp_all add: one_back_eq two_leases_eq cmp_defs)
  from put_skips_eviction_policy [OF h1 h2 h3 h4, of lib_ok False 100] h1 h2 h3 h4 h5 h6
  show ?thesis
    by (simp add: Put_def one_back_eq two_leases_eq)
qed

subsection \<open>Closing connections and the pool\<close>

lemma ThriftConn_Close_pool: "pool (snd (ThriftConn_Close lib w conn)) = pool w"
  by (simp add: ThriftConn_Close_def Let_def)

lemma ThriftConn_Close_closes: "conn_closed (conns (snd (ThriftConn_Close lib w conn)) conn)"
  by (simp add: ThriftConn_Close_def Let_def)

lemma ThriftConn_Close_keeps:
  "conn_closed (conns w c) \<Longrightarrow> conn_closed (conns (snd (ThriftConn_Close lib w d)) c)"
  by (simp add: ThriftConn_Close_def Let_def)

lemma closeEach_pool: "pool (closeEach lib cs w) = pool w"
  by (induction cs arbitrary: w) (simp_all add: ThriftConn_Close_pool)

lemma closeEach_keeps:
  "conn_closed (conns w c) \<Longrightarrow> conn_closed (conns (closeEach lib cs w) c)"
  by (induction cs arbitrary: w) (simp_all add: ThriftConn_Close_keeps)

lemma closeEach_closes:
  "c \<in> set cs \<Longrightarrow> conn_closed (conns (closeEach lib cs w) c)"
proof (induction cs arbitrary: w)
  case Nil
  then show ?case by simp
next
  case (Cons d ds)
  show ?case
  proof (cases "c = d")
    case True
    then show ?thesis
      by (simp add: closeEach_keeps ThriftConn_Close_closes)
  next
    case False
    with Cons show ?thesis by simp
  qed
qed

text \<open>
  C9. \<^verbatim>\<open>Close\<close> never writes \<^verbatim>\<open>idle\<close>: in every state, \<^verbatim>\<open>GetIdle\<close> reads
  the same after the call as before it. When the call does its work (the flag was 0 and
  the channel open), it returns, the flag is 1, the channel is closed and empty, and every
  connection that waited in it is closed.
\<close>

theorem Close_keeps_idle:
  "GetIdle (snd (Close lib w)) = GetIdle w
   \<and> (closed (pool w) = 0 \<and> \<not> chan_closed (clients (pool w)) \<longrightarrow>
        fst (Close lib w) = Return ()
      \<and> closed (pool (snd (Close lib w))) = 1
      \<and> chan_closed (clients (pool (snd (Close lib w))))
      \<and> buf (clients (pool (snd (Close lib w)))) = []
      \<and> (\<forall>c \<in> set (buf (clients (pool w))). conn_closed (conns (snd (Close lib w)) c)))"
  by (simp add: Close_def GetIdle_def Let_def closeEach_pool closeEach_closes)

theorem Close_keeps_idle_witness:
  "closed (pool both_back) = 0 \<and> \<not> chan_closed (clients (pool both_back))
   \<and> buf (clients (pool both_back)) = [0, 1]
   \<and> GetIdle both_back = 2
   \<and> GetIdle (snd (Close lib_ok both_back)) = 2
   \<and> fst (Close lib_ok both_back) = Return ()
   \<and> buf (clients (pool (snd (Close lib_ok both_back)))) = []
   \<and> conn_closed (conns (snd (Close lib_ok both_back)) 0)
   \<and> conn_closed (conns (snd (Close lib_ok both_back)) 1)"
proof -
  have h: "closed (pool both_back) = 0 \<and> \<not> chan_closed (clients (pool both_back))"
    and b: "buf (clients (pool both_back)) = [0, 1]"
    and i: "GetIdle both_back = 2"
    by (simp_all add: both_back_eq two_leases_eq GetIdle_def)
  from Close_keeps_idle [of lib_ok both_back] h b i show ?thesis
    by simp
qed

lemma UpdateUsedTime_keeps:
  "conn_closed (conns w c) \<Longrightarrow> conn_closed (conns (snd (UpdateUsedTime w d now)) c)"
  by (auto simp add: UpdateUsedTime_def Let_def)

lemma discard_keeps:
  "conn_closed (conns w c) \<Longrightarrow> conn_closed (conns (discard lib w d) c)"
  by (simp add: discard_def subIdle_def Let_def ThriftConn_Close_keeps)

lemma put_select_keeps:
  "conn_closed (conns w c) \<Longrightarrow> conn_closed (conns (snd (put_select lib w d u)) c)"
  by (simp add: put_select_def Let_def discard_keeps split: outcome.split option.split)

lemma put_body_keeps:
  "conn_closed (conns w c) \<Longrightarrow> conn_closed (conns (snd (put_body lib w d doNotNew now)) c)"
proof -
  assume c: "conn_closed (conns w c)"
  define w1 where "w1 = snd (subUsed w)"
  define w2 where "w2 = snd (addIdle w1)"
  define w3 where "w3 = (if \<not> doNotNew then snd (UpdateUsedTime w2 d now) else w2)"
  from c have c1: "conn_closed (conns w1 c)"
    by (simp add: w1_def subUsed_def Let_def)
  then have "conn_closed (conns w2 c)"
    by (simp add: w2_def addIdle_def Let_def)
  then have c3: "conn_closed (conns w3 c)"
    by (simp add: w3_def UpdateUsedTime_keeps)
  have "snd (put_body lib w d doNotNew now) \<in>
          {w1, snd (ThriftConn_Close lib w1 d), discard lib w3 d,
           snd (put_select lib w3 d (fst (subUsed w)))}"
    by (simp add: put_body_def w1_def w2_def w3_def split_def Let_def)
  with c1 c3 show ?thesis
    by (auto simp add: ThriftConn_Close_keeps discard_keeps put_select_keeps)
qed

lemma put_keeps:
  assumes "conn_closed (conns w c)"
  shows "conn_closed (conns (snd (put lib w d doNotNew accessTime now)) c)"
proof -
  let ?w0 = "w\<lparr>pool := (pool w)\<lparr>assessTime := accessTime\<rparr>\<rparr>"
  from assms have "conn_closed (conns ?w0 c)"
    by simp
  then have body: "conn_closed (conns (snd (put_body lib ?w0 d doNotNew now)) c)"
    by (rule put_body_keeps)
  show ?thesis
  proof (cases "put_body lib ?w0 d doNotNew now")
    case (Pair r w1)
    with body show ?thesis
      by (cases r) (simp_all add: put_def discard_keeps)
  qed
qed

lemma Close_keeps:
  "conn_closed (conns w c) \<Longrightarrow> conn_closed (conns (snd (Close lib w)) c)"
  by (simp add: Close_def Let_def closeEach_keeps)

lemma get_keeps:
  "conn_closed (conns w c) \<Longrightarrow> c < nextConn w \<Longrightarrow>
   conn_closed (conns (snd (get lib w doNotNew accessTime connTime)) c)"
  by (auto simp add: get_def addUsed_def subUsed_def subIdle_def dial_def open_client_def Let_def
      split: option.split sum.split prod.split)

text \<open>
  C8. \<^verbatim>\<open>ThriftConn.Close\<close> on a connection whose flag is set returns nil and leaves
  the state as it is, so the handle's \<^verbatim>\<open>Close\<close> is not called; after any call the
  flag is set, so a second call in a row is of that kind. And a flag that is set stays
  set: through \<^verbatim>\<open>Close\<close> and \<^verbatim>\<open>UpdateUsedTime\<close> of any connection, through
  \<^verbatim>\<open>put\<close> of any connection, through the pool's \<^verbatim>\<open>Close\<close>, and, for a
  connection allocated before, through \<^verbatim>\<open>get\<close>.
\<close>

theorem ThriftConn_Close_idempotent:
  "(conn_closed (conns w conn) \<longrightarrow> ThriftConn_Close lib w conn = (None, w))
   \<and> conn_closed (conns (snd (ThriftConn_Close lib w conn)) conn)
   \<and> ThriftConn_Close lib (snd (ThriftConn_Close lib w conn)) conn
       = (None, snd (ThriftConn_Close lib w conn))
   \<and> (conn_closed (conns w conn) \<longrightarrow>
         conn_closed (conns (snd (ThriftConn_Close lib w other)) conn)
       \<and> conn_closed (conns (snd (UpdateUsedTime w other now)) conn)
       \<and> conn_closed (conns (snd (put lib w other doNotNew accessTime now)) conn)
       \<and> conn_closed (conns (snd (Close lib w)) conn)
       \<and> (conn < nextConn w \<longrightarrow>
            conn_closed (conns (snd (get lib w doNotNew accessTime now)) conn)))"
proof -
  have "conn_closed (conns w conn) \<longrightarrow> ThriftConn_Close lib w conn = (None, w)"
    by (simp add: ThriftConn_Close_def)
  moreover have "conn_closed (conns (snd (ThriftConn_Close lib w conn)) conn)"
    by (rule ThriftConn_Close_closes)
  moreover have "ThriftConn_Close lib (snd (ThriftConn_Close lib w conn)) conn
      = (None, snd (ThriftConn_Close lib w conn))"
    by (simp add: ThriftConn_Close_def Let_def)
  ultimately show ?thesis
    by (simp add: ThriftConn_Close_keeps UpdateUsedTime_keeps put_keeps Close_keeps get_keeps)
qed

theorem ThriftConn_Close_idempotent_witness:
  "\<not> conn_closed (conns two_leases 0)
   \<and> trace (snd (ThriftConn_Close lib_ok two_leases 0)) = trace two_leases @ [CallClose 0]
   \<and> conn_closed (conns (snd (ThriftConn_Close lib_ok two_leases 0)) 0)
   \<and> ThriftConn_Close lib_ok (snd (ThriftConn_Close lib_ok two_leases 0)) 0
       = (None, snd (ThriftConn_Close lib_ok two_leases 0))
   \<and> conn_closed (conns shut 0) \<and> 0 < nextConn shut
   \<and> ThriftConn_Close lib_ok shut 0 = (None, shut)
   \<and> conn_closed (conns (snd (ThriftConn_Close lib_ok shut 1)) 0)
   \<and> conn_closed (conns (snd (UpdateUsedTime shut 1 101)) 0)
   \<and> conn_closed (conns (snd (put lib_ok shut 1 False 101 101)) 0)
   \<and> conn_closed (conns (snd (Close lib_ok shut)) 0)
   \<and> conn_closed (conns (snd (get lib_ok shut False 101 101)) 0)"
proof -
  have h: "conn_closed (conns shut 0)" and n: "0 < nextConn shut"
    by (simp_all add: shut_eq two_leases_eq)
  have o: "\<not> conn_closed (conns two_leases 0)"
    and t: "trace (snd (ThriftConn_Close lib_ok two_leases 0)) = trace two_leases @ [CallClose 0]"
    by (simp_all add: two_leases_eq ThriftConn_Close_def Let_def)
  from ThriftConn_Close_idempotent [of two_leases 0 lib_ok]
    ThriftConn_Close_idempotent [of shut 0 lib_ok 1 101 False 101] h n o t
  show ?thesis
    by simp
qed

subsection \<open>Get after Put\<close>

text \<open>
  A \<^verbatim>\<open>Put\<close> on an open pool that returns nil and leaves its connection open has
  queued it behind the connections that waited already.
\<close>

lemma Put_queued:
  assumes "closed (pool w) \<noteq> 1"
      and "\<not> conn_closed (conns w conn)"
      and "fst (Put lib w conn accessTime now) = Return None"
      and "\<not> conn_closed (conns (snd (Put lib w conn accessTime now)) conn)"
  shows "buf (clients (pool (snd (Put lib w conn accessTime now))))
           = buf (clients (pool w)) @ [conn]
       \<and> trace (snd (Put lib w conn accessTime now)) = trace w"
  using assms
  by (simp add: put_defs split: if_split_asm)

lemma Get_waiting:
  assumes "buf (clients (pool w)) = c # cs"
  shows "fst (Get lib w accessTime connTime) = (Some c, None)
       \<and> trace (snd (Get lib w accessTime connTime)) = trace w"
  using assms by (simp add: get_defs)

text \<open>
  C6, as the claim states it, fails. Connections 0 and 1 are leased, and released in
  that order on the open pool; the release of connection 1 returns nil and leaves it
  open and queued. The \<^verbatim>\<open>Get\<close> that follows returns connection 0, which has
  waited longer, not connection 1.
\<close>

theorem Get_after_Put_counterexample:
  "closed (pool one_back) \<noteq> 1
   \<and> \<not> conn_closed (conns one_back 1)
   \<and> fst (Put lib_ok one_back 1 100 100) = Return None
   \<and> both_back = snd (Put lib_ok one_back 1 100 100)
   \<and> \<not> conn_closed (conns both_back 1)
   \<and> buf (clients (pool both_back)) = [0, 1]
   \<and> fst (Get lib_ok both_back 100 100) = (Some 0, None)
   \<and> fst (Get lib_ok both_back 100 100) \<noteq> (Some 1, None)"
proof -
  have "fst (Put lib_ok one_back 1 100 100) = Return None"
    by (simp add: one_back_eq two_leases_eq put_defs cmp_defs)
  moreover have "fst (Get lib_ok both_back 100 100) = (Some 0, None)"
    by (simp add: both_back_eq two_leases_eq get_defs)
  moreover have "closed (pool one_back) \<noteq> 1 \<and> \<not> conn_closed (conns one_back 1)"
    by (simp add: one_back_eq two_leases_eq)
  moreover have "\<not> conn_closed (conns both_back 1) \<and> buf (clients (pool both_back)) = [0, 1]"
    by (simp add: both_back_eq two_leases_eq)
  ultimately show ?thesis
    by (simp add: both_back_def)
qed

text \<open>
  C6, amended: a single caller releases a connection that is not closed to an open pool
  in whose channel no other connection waits; \<^verbatim>\<open>Put\<close> returns nil and has not closed
  the connection. Then the \<^verbatim>\<open>Get\<close> that follows returns that connection and no
  error, and since before the \<^verbatim>\<open>Put\<close> the thrift library has not been called: there
  is no dial.
\<close>

theorem Get_after_Put:
  assumes "closed (pool w) \<noteq> 1"
      and "\<not> conn_closed (conns w conn)"
      and "buf (clients (pool w)) = []"
      and "fst (Put lib w conn t0 t1) = Return None"
      and "\<not> conn_closed (conns (snd (Put lib w conn t0 t1)) conn)"
  shows "fst (Get lib (snd (Put lib w conn t0 t1)) t2 t3) = (Some conn, None)
       \<and> trace (snd (Get lib (snd (Put lib w conn t0 t1)) t2 t3)) = trace w"
proof -
  from Put_queued [OF assms(1,2,4,5)] assms(3)
  have "buf (clients (pool (snd (Put lib w conn t0 t1)))) = [conn]"
    and "trace (snd (Put lib w conn t0 t1)) = trace w"
    by simp_all
  with Get_waiting [of "snd (Put lib w conn t0 t1)" conn "[]" lib t2 t3]
  show ?thesis by simp
qed

theorem Get_after_Put_witness:
  "closed (pool two_leases) \<noteq> 1
   \<and> \<not> conn_closed (conns two_leases 0)
   \<and> buf (clients (pool two_leases)) = []
   \<and> fst (Put lib_ok two_leases 0 100 100) = Return None
   \<and> \<not> conn_closed (conns (snd (Put lib_ok two_leases 0 100 100)) 0)
   \<and> fst (Get lib_ok (snd (Put lib_ok two_leases 0 100 100)) 101 101) = (Some 0, None)
   \<and> trace (snd (Get lib_ok (snd (Put lib_ok two_leases 0 100 100)) 101 101))
       = trace two_leases"
proof -
  have h1: "closed (pool two_leases) \<noteq> 1"
    and h2: "\<not> conn_closed (conns two_leases 0)"
    and h3: "buf (clients (pool two_leases)) = []"
    by (simp_all add: two_leases_eq)
  have h4: "fst (Put lib_ok two_leases 0 100 100) = Return None"
    and h5: "\<not> conn_closed (conns (snd (Put lib_ok two_leases 0 100 100)) 0)"
    unfolding one_back_def [symmetric]
    by (simp_all add: two_leases_eq put_defs cmp_defs one_back_eq)
  from Get_after_Put [OF h1 h2 h3 h4 h5, of 101 101] h1 h2 h3 h4 h5 show ?thesis
    by simp
qed

subsection \<open>IdleTimeout is kept at 1 or more\<close>

text \<open>
  \<^verbatim>\<open>NewThriftPool\<close> and \<^verbatim>\<open>SetIdleTimeout\<close> set IdleTimeout to 1 at least, and
  \<^verbatim>\<open>get\<close>, \<^verbatim>\<open>put\<close> and \<^verbatim>\<open>Close\<close> do not write it.
\<close>

lemma NewThriftPool_IdleTimeout:
  "NewThriftPool endpoint dialTimeout idleTimeout maxSize initSize = Some t \<Longrightarrow>
   1 \<le> sint (IdleTimeout t)"
  by (auto simp add: NewThriftPool_def Let_def cmp_defs split: option.splits if_splits)

lemma SetIdleTimeout_IdleTimeout: "1 \<le> sint (IdleTimeout (SetIdleTimeout t timeout))"
  by (simp add: SetIdleTimeout_def cmp_defs)

lemma discard_IdleTimeout: "IdleTimeout (pool (discard lib w conn)) = IdleTimeout (pool w)"
  by (simp add: discard_def subIdle_def Let_def ThriftConn_Close_pool)

lemma put_IdleTimeout:
  "IdleTimeout (pool (snd (put lib w conn doNotNew accessTime now))) = IdleTimeout (pool w)"
  by (simp add: put_defs split: outcome.split option.split)

lemma get_IdleTimeout:
  "IdleTimeout (pool (snd (get lib w doNotNew accessTime connTime))) = IdleTimeout (pool w)"
  by (simp add: get_defs split: option.split sum.split prod.split)

lemma Close_IdleTimeout: "IdleTimeout (pool (snd (Close lib w))) = IdleTimeout (pool w)"
  by (simp add: Close_def Let_def closeEach_pool)

end
